theory Spec2Isabelle
  imports Complex_Main
begin

section \<open>Values, exceptions and stored state\<close>

text \<open>
  The collectors of \<^verbatim>\<open>data-service/collectors\<close> are embedded as functions on an
  explicit world: the rows of the database tables, the messages handed to the
  Telegram notifier and the restart commands sent to devices. Python floats are
  modelled as exact reals (no rounding, no overflow), Python strings as lists of
  8-bit characters, and every \<^verbatim>\<open>raise\<close> as a value of type \<open>exn\<close>.
\<close>

datatype family = BitAxe | Avalon

datatype exn =
    ValueError
  | TypeError
  | IndexError
  | AttributeError
  | OperationalError
  | IntegrityError
  | RequestException
  | SocketError

fun str_of_exn :: "exn \<Rightarrow> string" where
  "str_of_exn ValueError = ''ValueError''"
| "str_of_exn TypeError = ''TypeError''"
| "str_of_exn IndexError = ''IndexError''"
| "str_of_exn AttributeError = ''AttributeError''"
| "str_of_exn OperationalError = ''OperationalError''"
| "str_of_exn IntegrityError = ''IntegrityError''"
| "str_of_exn RequestException = ''RequestException''"
| "str_of_exn SocketError = ''SocketError''"

text \<open>
  The calls made on \<^verbatim>\<open>TelegramNotifier\<close>. The notifier formats a message and sends it,
  catching every failure of the transport, so a call is modelled as appending the event
  to the outbox. The offline alert carries the stored last-seen time (\<open>None\<close> is the
  text \<^verbatim>\<open>Unknown\<close>), the online alert the offline duration in seconds.
\<close>

datatype AlertEvent =
    HashrateAlert string string real nat
  | BestDifficultyAlert string string real real
  | DeviceOfflineAlert string string "int option" string
  | DeviceOnlineAlert string string "int option"
  | DeviceRestartNotification string string

text \<open>A row of \<^verbatim>\<open>bitaxe_devices\<close> or \<^verbatim>\<open>avalon_devices\<close> (models.py).\<close>

record device_row =
  db_id :: nat
  device_name :: string
  ip_address :: string
  is_active :: bool
  last_seen_at :: "int option"
  error_message :: "string option"

text \<open>
  A row of \<^verbatim>\<open>bitaxe_mining_stats\<close> or \<^verbatim>\<open>avalon_mining_stats\<close>, reduced to the columns
  the anomaly checks read. For the text/socket family the best share is the column
  \<^verbatim>\<open>difficulty\<close>. Tables are lists with the newest row first, which is the order of
  \<^verbatim>\<open>ORDER BY recorded_at DESC\<close> when the clock does not run backwards.
\<close>

record mining_row =
  mr_device :: nat
  mr_hashrate_ghs :: real
  mr_best_difficulty :: real

text \<open>
  A value decoded from JSON, or stored in a dict by the section parser. A dict of the
  decoders is a map from keys to such values.
\<close>

datatype pyval =
    PNone
  | PBool bool
  | PInt int
  | PFloat real
  | PStr string
  | PList "pyval list"
  | PDict "(string \<times> pyval) list"

type_synonym pydict = "string \<rightharpoonup> pyval"

text \<open>
  A row of the hardware log, reduced to \<^verbatim>\<open>power_watts\<close>, \<^verbatim>\<open>efficiency_j_per_th\<close> and
  \<^verbatim>\<open>temperature_c\<close>, and the three optional columns of \<^verbatim>\<open>bitaxe_system_info\<close>. A
  parameter of an INSERT is stored as it is passed.
\<close>

record hardware_row =
  hw_device :: nat
  hw_power_watts :: pyval
  hw_efficiency_j_per_th :: real
  hw_temperature_c :: pyval

record system_info_params =
  overheat_mode :: pyval
  display_rotation :: pyval
  display_timeout :: pyval

text \<open>
  The world: the committed rows of the tables, the notifier's outbox, the restart
  commands sent, the devices asked for data in this cycle, the number of database
  connections opened so far, and the clock.
\<close>

record world =
  devices :: "family \<Rightarrow> string \<rightharpoonup> device_row"
  mining_stats :: "family \<Rightarrow> mining_row list"
  hardware_logs :: "family \<Rightarrow> hardware_row list"
  system_info_rows :: "(nat \<times> system_info_params) list"
  outbox :: "AlertEvent list"
  restarts :: "(family \<times> string) list"
  polled :: "(family \<times> string) list"
  db_connects :: nat
  now :: int

text \<open>
  What the surroundings decide: whether the n-th attempt to open a database connection
  succeeds; whether a device accepts the restart command; what \<^verbatim>\<open>_api_request\<close>
  (by address) and \<^verbatim>\<open>_socket_request\<close> (by address and command) return or raise once
  their retries are used up; an error of the database on the INSERT statements of a
  device other than the NOT NULL constraints modelled here; and the text of a float.
\<close>

record env =
  db_reachable :: "nat \<Rightarrow> bool"
  restart_ok :: "family \<Rightarrow> string \<Rightarrow> bool"
  api_request :: "string \<Rightarrow> exn + pyval"
  socket_request :: "string \<Rightarrow> string \<Rightarrow> exn + pyval"
  insert_error :: "family \<Rightarrow> string \<Rightarrow> exn option"
  float_repr :: "real \<Rightarrow> string"

definition get_db_connection :: "env \<Rightarrow> world \<Rightarrow> exn option \<times> world" where
  "get_db_connection e w =
     (let w' = w\<lparr>db_connects := Suc (db_connects w)\<rparr>
      in if db_reachable e (db_connects w) then (None, w') else (Some OperationalError, w'))"

definition notify :: "AlertEvent \<Rightarrow> world \<Rightarrow> world" where
  "notify a w = w\<lparr>outbox := outbox w @ [a]\<rparr>"

section \<open>MetricsComputer: efficiency\<close>

text \<open>
  \<^verbatim>\<open>efficiency = (power / (hashrate_ghs / 1000.0)) if hashrate_ghs > 0 else 0\<close>
  (bitaxe_collector.py line 284, avalon_collector.py line 517).
\<close>

definition efficiency :: "real \<Rightarrow> real \<Rightarrow> real" where
  "efficiency power_w hashrate_ghs =
     (if hashrate_ghs > 0 then power_w / (hashrate_ghs / 1000) else 0)"

section \<open>AnomalyDetector\<close>

subsection \<open>Restart command\<close>

text \<open>
  \<^verbatim>\<open>restart_device\<close> sends the family's restart command; on success it sends the restart
  notification and returns True, on any failure it logs and returns False.
\<close>

definition restart_device ::
  "env \<Rightarrow> family \<Rightarrow> string \<Rightarrow> string \<Rightarrow> string \<Rightarrow> world \<Rightarrow> bool \<times> world" where
  "restart_device e fam device_ip device_id dname w =
     (let w1 = w\<lparr>restarts := restarts w @ [(fam, device_ip)]\<rparr>
      in if restart_ok e fam device_ip
         then (True, notify (DeviceRestartNotification device_id dname) w1)
         else (False, w1))"

subsection \<open>Hashrate stagnation\<close>

definition tolerance :: "family \<Rightarrow> real" where
  "tolerance fam = (case fam of BitAxe \<Rightarrow> 1 / 10 | Avalon \<Rightarrow> 1 / 100)"

text \<open>
  \<^verbatim>\<open>SELECT hashrate_ghs FROM ..._mining_stats WHERE device_id = %s
  ORDER BY recorded_at DESC LIMIT 3\<close>; the parameter is None when the device has no row.
\<close>

definition recent_hashrates :: "family \<Rightarrow> nat option \<Rightarrow> world \<Rightarrow> real list" where
  "recent_hashrates fam device_db_id w =
     take 3 (map mr_hashrate_ghs
       (filter (\<lambda>r. device_db_id = Some (mr_device r)) (mining_stats w fam)))"

text \<open>
  \<^verbatim>\<open>all(abs(hr - recent_hashrates[0]) < tol for hr in recent_hashrates)\<close>, evaluated
  only when the list has at least 3 entries.
\<close>

definition stagnant :: "family \<Rightarrow> real list \<Rightarrow> bool" where
  "stagnant fam recent =
     (length recent \<ge> 3 \<and> list_all (\<lambda>hr. \<bar>hr - hd recent\<bar> < tolerance fam) recent)"

definition check_hashrate_stagnation ::
  "env \<Rightarrow> family \<Rightarrow> nat option \<Rightarrow> string \<Rightarrow> string \<Rightarrow> real \<Rightarrow> string \<Rightarrow> world
     \<Rightarrow> exn option \<times> world" where
  "check_hashrate_stagnation e fam device_db_id device_id dname current_hashrate device_ip w =
     (case get_db_connection e w of
        (Some x, w1) \<Rightarrow> (Some x, w1)
      | (None, w1) \<Rightarrow>
          if stagnant fam (recent_hashrates fam device_db_id w1)
          then (None, snd (restart_device e fam device_ip device_id dname
                  (notify (HashrateAlert device_id dname current_hashrate 3) w1)))
          else (None, w1))"

subsection \<open>Best difficulty\<close>

text \<open>
  \<^verbatim>\<open>SELECT best_difficulty ... WHERE device_id = %s AND best_difficulty > 0
  ORDER BY recorded_at DESC LIMIT 1 OFFSET 1\<close>, then
  \<^verbatim>\<open>previous_best = result[0] if result else 0\<close>.
\<close>

definition previous_best :: "family \<Rightarrow> nat option \<Rightarrow> world \<Rightarrow> real" where
  "previous_best fam device_db_id w =
     (case drop 1 (filter (\<lambda>b. b > 0) (map mr_best_difficulty
             (filter (\<lambda>r. device_db_id = Some (mr_device r)) (mining_stats w fam)))) of
        [] \<Rightarrow> 0
      | b # _ \<Rightarrow> b)"

text \<open>The decision of \<^verbatim>\<open>BitAxeCollector.check_best_difficulty_improvement\<close>.\<close>

definition bitaxe_best_alert :: "string \<Rightarrow> string \<Rightarrow> real \<Rightarrow> real \<Rightarrow> AlertEvent list" where
  "bitaxe_best_alert device_id dname current_best_diff prev =
     (if current_best_diff > 0 \<and> prev > 0
      then (let improvement = ((current_best_diff - prev) / prev) * 100
            in if improvement \<ge> 5
               then [BestDifficultyAlert device_id dname current_best_diff prev]
               else [])
      else [])"

text \<open>The decision of \<^verbatim>\<open>AvalonCollector.check_best_difficulty_improvement\<close>.\<close>

definition avalon_best_alert :: "string \<Rightarrow> string \<Rightarrow> real \<Rightarrow> real \<Rightarrow> AlertEvent list" where
  "avalon_best_alert device_id dname current_best_diff prev =
     (if current_best_diff > 0 \<and> prev > 0
      then (let improvement = ((current_best_diff - prev) / prev) * 100
            in if improvement \<ge> 5
               then [BestDifficultyAlert device_id dname current_best_diff prev]
               else [])
      else if current_best_diff > 0 \<and> prev = 0
      then [BestDifficultyAlert device_id dname current_best_diff 0]
      else [])"

definition best_alert :: "family \<Rightarrow> string \<Rightarrow> string \<Rightarrow> real \<Rightarrow> real \<Rightarrow> AlertEvent list" where
  "best_alert fam = (case fam of BitAxe \<Rightarrow> bitaxe_best_alert | Avalon \<Rightarrow> avalon_best_alert)"

definition check_best_difficulty_improvement ::
  "env \<Rightarrow> family \<Rightarrow> nat option \<Rightarrow> string \<Rightarrow> string \<Rightarrow> real \<Rightarrow> world \<Rightarrow> exn option \<times> world" where
  "check_best_difficulty_improvement e fam device_db_id device_id dname current_best_diff w =
     (case get_db_connection e w of
        (Some x, w1) \<Rightarrow> (Some x, w1)
      | (None, w1) \<Rightarrow>
          (None, w1\<lparr>outbox := outbox w1 @
                     best_alert fam device_id dname current_best_diff
                       (previous_best fam device_db_id w1)\<rparr>))"

subsection \<open>Device status\<close>

text \<open>
  \<^verbatim>\<open>update_device_status\<close> is the same in both collectors but for the table it reads.
  The connection is opened before the \<^verbatim>\<open>try\<close>, so a failure to connect leaves the
  function as an exception. The UPDATE writes \<^verbatim>\<open>last_seen_at\<close> and
  \<^verbatim>\<open>error_message\<close> only. The offline duration of the online alert is the clock
  minus the stored time; the two collectors differ only in how they read the clock.
\<close>

definition display_name :: "device_row \<Rightarrow> string \<Rightarrow> string" where
  "display_name row device_id = (if device_name row = [] then device_id else device_name row)"

definition update_device_status ::
  "env \<Rightarrow> family \<Rightarrow> string \<Rightarrow> string \<Rightarrow> bool \<Rightarrow> string \<Rightarrow> world \<Rightarrow> exn option \<times> world" where
  "update_device_status e fam device_id device_ip is_online error_msg w =
     (case get_db_connection e w of
        (Some x, w1) \<Rightarrow> (Some x, w1)
      | (None, w1) \<Rightarrow>
          (case devices w1 fam device_id of
             None \<Rightarrow> (None, w1)
           | Some row \<Rightarrow>
               (let current_status = is_active row;
                    last_seen = last_seen_at row;
                    row' = row\<lparr>last_seen_at := (if is_online then Some (now w1) else last_seen),
                               error_message := Some error_msg\<rparr>;
                    w2 = w1\<lparr>devices := (devices w1)(fam := (devices w1 fam)(device_id \<mapsto> row'))\<rparr>
                in if current_status \<and> \<not> is_online
                   then (None, notify (DeviceOfflineAlert device_id (display_name row device_id)
                                         last_seen error_msg) w2)
                   else if \<not> current_status \<and> is_online
                   then (None, notify (DeviceOnlineAlert device_id (display_name row device_id)
                                         (map_option (\<lambda>t. now w1 - t) last_seen)) w2)
                   else (None, w2))))"

section \<open>Python strings and conversions\<close>

text \<open>
  The string operations and conversions of Python that the decoders use, on ASCII text.
  White space for \<^verbatim>\<open>strip\<close>, \<^verbatim>\<open>split\<close> and \<^verbatim>\<open>\s\<close> is what \<^verbatim>\<open>str.isspace\<close> accepts below
  code 128; \<^verbatim>\<open>\d\<close> is an ASCII digit.
\<close>

definition is_digit :: "char \<Rightarrow> bool" where
  "is_digit c = (c \<in> set ''0123456789'')"

definition digit_val :: "char \<Rightarrow> nat" where
  "digit_val c = of_char c - 48"

definition is_space :: "char \<Rightarrow> bool" where
  "is_space c = (c \<in> set [CHR 0x09, CHR 0x0A, CHR 0x0B, CHR 0x0C, CHR 0x0D,
                            CHR 0x1C, CHR 0x1D, CHR 0x1E, CHR 0x1F, CHR '' ''])"


text \<open>
  \<^verbatim>\<open>float\<close> and \<^verbatim>\<open>int\<close> strip a smaller set: tab, line feed, vertical tab, form feed,
  carriage return and space.
\<close>

definition is_num_space :: "char \<Rightarrow> bool" where
  "is_num_space c = (c \<in> set [CHR 0x09, CHR 0x0A, CHR 0x0B, CHR 0x0C, CHR 0x0D, CHR '' ''])"

definition strip_num :: "string \<Rightarrow> string" where
  "strip_num s = rev (dropWhile is_num_space (rev (dropWhile is_num_space s)))"

text \<open>\<^verbatim>\<open>s.split()\<close>: the maximal runs of characters that are not white space.\<close>

fun split_ws_aux :: "string \<Rightarrow> string \<Rightarrow> string list" where
  "split_ws_aux cur [] = (if cur = [] then [] else [rev cur])"
| "split_ws_aux cur (c # cs) =
     (if is_space c
      then (if cur = [] then split_ws_aux [] cs else rev cur # split_ws_aux [] cs)
      else split_ws_aux (c # cur) cs)"

definition split_ws :: "string \<Rightarrow> string list" where
  "split_ws s = split_ws_aux [] s"

text \<open>\<^verbatim>\<open>s.split(sep)\<close> for a separator of one character: never an empty list.\<close>

fun split_on :: "char \<Rightarrow> string \<Rightarrow> string list" where
  "split_on sep [] = [[]]"
| "split_on sep (c # cs) =
     (if c = sep then [] # split_on sep cs
      else (case split_on sep cs of
              [] \<Rightarrow> [[c]]
            | p # ps \<Rightarrow> (c # p) # ps))"



definition starts_with :: "string \<Rightarrow> string \<Rightarrow> bool" where
  "starts_with pre s = (take (length pre) s = pre)"



text \<open>
  Digits of a numeric literal: Python allows single underscores between digits. The
  result is the digits read and the rest of the text.
\<close>

fun digs :: "bool \<Rightarrow> string \<Rightarrow> string \<times> string" where
  "digs prev [] = ([], [])"
| "digs prev (c # cs) =
     (if is_digit c then (case digs True cs of (d, r) \<Rightarrow> (c # d, r))
      else if c = CHR ''_'' \<and> prev \<and> (case cs of [] \<Rightarrow> False | x # _ \<Rightarrow> is_digit x)
      then digs False cs
      else ([], c # cs))"

definition nat_of_digits :: "string \<Rightarrow> nat" where
  "nat_of_digits ds = foldl (\<lambda>a c. 10 * a + digit_val c) 0 ds"

definition split_sign :: "string \<Rightarrow> bool \<times> string" where
  "split_sign s =
     (case s of
        [] \<Rightarrow> (False, [])
      | c # cs \<Rightarrow> if c = CHR ''-'' then (True, cs)
                  else if c = CHR ''+'' then (False, cs)
                  else (False, s))"

text \<open>The exponent part of a float literal: empty, or e or E, a sign, digits.\<close>

definition parse_exponent :: "string \<Rightarrow> int option" where
  "parse_exponent s =
     (case s of
        [] \<Rightarrow> Some 0
      | c # cs \<Rightarrow>
          if c = CHR ''e'' \<or> c = CHR ''E''
          then (case split_sign cs of
                  (neg, t) \<Rightarrow>
                    (case digs False t of
                       (d, r) \<Rightarrow>
                         if d \<noteq> [] \<and> r = []
                         then Some (if neg then - int (nat_of_digits d) else int (nat_of_digits d))
                         else None))
          else None)"

definition scale10 :: "real \<Rightarrow> int \<Rightarrow> real" where
  "scale10 x k = (if k \<ge> 0 then x * 10 ^ nat k else x / 10 ^ nat (- k))"

text \<open>
  \<^verbatim>\<open>float(s)\<close> on a string: white space is stripped, then a sign, digits with an
  optional point (at least one digit), an optional exponent, and nothing more. The value
  is the exact decimal. The literals \<^verbatim>\<open>inf\<close>, \<^verbatim>\<open>infinity\<close> and \<^verbatim>\<open>nan\<close>, which Python
  reads as non-finite floats, have no real value; this grammar leaves them out and they
  count as text that is not a number.
\<close>

definition py_float :: "string \<Rightarrow> exn + real" where
  "py_float s =
     (case split_sign (strip_num s) of
        (neg, t) \<Rightarrow>
          (case digs False t of
             (ip, r1) \<Rightarrow>
               (case (case r1 of
                        [] \<Rightarrow> ([], [])
                      | c # cs \<Rightarrow> if c = CHR ''.'' then digs False cs else ([], r1)) of
                  (fp, r2) \<Rightarrow>
                    if ip = [] \<and> fp = [] then Inl ValueError
                    else (case parse_exponent r2 of
                            None \<Rightarrow> Inl ValueError
                          | Some k \<Rightarrow>
                              (let m = real (nat_of_digits (ip @ fp)) / 10 ^ length fp;
                                   v = scale10 m k
                               in Inr (if neg then - v else v))))))"

text \<open>
  \<^verbatim>\<open>int(s)\<close> on a string: white space is stripped, then a sign and digits, and
  nothing more.
\<close>

definition py_int :: "string \<Rightarrow> exn + int" where
  "py_int s =
     (case split_sign (strip_num s) of
        (neg, t) \<Rightarrow>
          (case digs False t of
             (d, r) \<Rightarrow>
               if d \<noteq> [] \<and> r = []
               then Inr (if neg then - int (nat_of_digits d) else int (nat_of_digits d))
               else Inl ValueError))"

text \<open>
  \<^verbatim>\<open>re.search(r'KEY\[(CLS+)\]', s)\<close>: the group of the leftmost match. The closing
  bracket is in none of the classes used, so the greedy run is the only candidate.
\<close>

definition match_group :: "string \<Rightarrow> (char \<Rightarrow> bool) \<Rightarrow> string \<Rightarrow> string option" where
  "match_group pre cls s =
     (if starts_with pre s
      then (let rest = drop (length pre) s; g = takeWhile cls rest
            in if g \<noteq> [] \<and> (case dropWhile cls rest of [] \<Rightarrow> False | c # _ \<Rightarrow> c = CHR '']'')
               then Some g else None)
      else None)"

fun re_search :: "string \<Rightarrow> (char \<Rightarrow> bool) \<Rightarrow> string \<Rightarrow> string option" where
  "re_search pre cls [] = match_group pre cls []"
| "re_search pre cls (c # cs) =
     (case match_group pre cls (c # cs) of
        Some g \<Rightarrow> Some g
      | None \<Rightarrow> re_search pre cls cs)"

definition cls_digit :: "char \<Rightarrow> bool" where
  "cls_digit c = is_digit c"

definition cls_digit_dot :: "char \<Rightarrow> bool" where
  "cls_digit_dot c = (is_digit c \<or> c = CHR ''.'')"

definition cls_not_close :: "char \<Rightarrow> bool" where
  "cls_not_close c = (c \<noteq> CHR '']'')"

section \<open>Decoded values and try/except\<close>

text \<open>\<^verbatim>\<open>d.get(k)\<close> is \<open>dict_get d k PNone\<close>; \<^verbatim>\<open>d.get(k, v)\<close> is \<open>dict_get d k v\<close>.\<close>

definition dict_get :: "pydict \<Rightarrow> string \<Rightarrow> pyval \<Rightarrow> pyval" where
  "dict_get d k dflt = (case d k of None \<Rightarrow> dflt | Some v \<Rightarrow> v)"

text \<open>
  \<^verbatim>\<open>try: body  except (E1, E2): return dflt\<close>: an exception of a listed class becomes
  the default, any other leaves the function.
\<close>

definition catch :: "exn list \<Rightarrow> 'a \<Rightarrow> exn + 'a \<Rightarrow> exn + 'a" where
  "catch handled dflt r =
     (case r of
        Inl x \<Rightarrow> if x \<in> set handled then Inr dflt else Inl x
      | Inr v \<Rightarrow> Inr v)"

text \<open>\<^verbatim>\<open>re.search\<close> raises TypeError on anything but a string.\<close>

definition search :: "string \<Rightarrow> (char \<Rightarrow> bool) \<Rightarrow> pyval \<Rightarrow> exn + string option" where
  "search pre cls v = (case v of PStr s \<Rightarrow> Inr (re_search pre cls s) | _ \<Rightarrow> Inl TypeError)"

text \<open>\<^verbatim>\<open>float(v)\<close> on a decoded value.\<close>

definition py_float_val :: "pyval \<Rightarrow> exn + real" where
  "py_float_val v =
     (case v of
        PStr s \<Rightarrow> py_float s
      | PInt i \<Rightarrow> Inr (real_of_int i)
      | PFloat r \<Rightarrow> Inr r
      | PBool b \<Rightarrow> Inr (if b then 1 else 0)
      | _ \<Rightarrow> Inl TypeError)"

text \<open>\<^verbatim>\<open>xs[i]\<close> raises IndexError out of range.\<close>

definition index :: "'a list \<Rightarrow> nat \<Rightarrow> exn + 'a" where
  "index xs i = (if i < length xs then Inr (xs ! i) else Inl IndexError)"

section \<open>ProtocolCodec, JSON/HTTP family\<close>

subsection \<open>Difficulty strings\<close>

text \<open>
  \<^verbatim>\<open>re.match(r'([\d.]+)\s*([KMGT])?', s)\<close>: the longest run of digits and points at the
  start (not empty), white space, and the unit when the next character is one.
\<close>

definition match_difficulty :: "string \<Rightarrow> (string \<times> char option) option" where
  "match_difficulty s =
     (let g1 = takeWhile cls_digit_dot s
      in if g1 = [] then None
         else Some (g1,
                (case dropWhile is_space (dropWhile cls_digit_dot s) of
                   [] \<Rightarrow> None
                 | c # _ \<Rightarrow> if c \<in> set ''KMGT'' then Some c else None)))"

definition multiplier :: "char option \<Rightarrow> real" where
  "multiplier unit =
     (case unit of
        None \<Rightarrow> 1
      | Some c \<Rightarrow>
          if c = CHR ''K'' then 10 ^ 3
          else if c = CHR ''M'' then 10 ^ 6
          else if c = CHR ''G'' then 10 ^ 9
          else if c = CHR ''T'' then 10 ^ 12
          else 1)"

text \<open>\<^verbatim>\<open>BitAxeCollector._parse_difficulty\<close> on a string; it has no \<^verbatim>\<open>try\<close>.\<close>

definition parse_difficulty :: "string \<Rightarrow> exn + real" where
  "parse_difficulty diff_str =
     (if diff_str = [] then Inr 0
      else (case match_difficulty diff_str of
              None \<Rightarrow> Inr 0
            | Some (g1, unit) \<Rightarrow>
                (case py_float g1 of
                   Inl x \<Rightarrow> Inl x
                 | Inr v \<Rightarrow> Inr (v * multiplier unit))))"

subsection \<open>Optional fields of the system-info row\<close>

text \<open>
  The parameters of the INSERT into \<^verbatim>\<open>bitaxe_system_info\<close> for the three fields that
  some hardware variants leave out: \<^verbatim>\<open>system_info.get('overheat_mode')\<close>,
  \<^verbatim>\<open>system_info.get('rotation')\<close>, \<^verbatim>\<open>system_info.get('displayTimeout')\<close>.
  \<open>PNone\<close> is sent to the database as NULL.
\<close>

definition system_info_params_of :: "pydict \<Rightarrow> system_info_params" where
  "system_info_params_of system_info =
     \<lparr> overheat_mode = dict_get system_info ''overheat_mode'' PNone,
       display_rotation = dict_get system_info ''rotation'' PNone,
       display_timeout = dict_get system_info ''displayTimeout'' PNone \<rparr>"

text \<open>
  The three columns are declared \<^verbatim>\<open>IntegerField(default=...)\<close> in models.py, which
  makes them NOT NULL; the default is applied by the ORM only, not by the raw INSERT
  of the collector. An INSERT with NULL in one of them is refused.
\<close>

definition insert_system_info :: "system_info_params \<Rightarrow> exn + system_info_params" where
  "insert_system_info p =
     (if overheat_mode p = PNone \<or> display_rotation p = PNone \<or> display_timeout p = PNone
      then Inl IntegrityError else Inr p)"

section \<open>ProtocolCodec, text/socket family\<close>

subsection \<open>Section parsing\<close>











subsection \<open>Field extractors\<close>

definition mm_id0_of :: "pydict \<Rightarrow> pyval" where
  "mm_id0_of stats_info = dict_get stats_info ''MM ID0'' (PStr [])"

definition parse_hashrate_mhs :: "pyval \<Rightarrow> exn + real" where
  "parse_hashrate_mhs mhs_str =
     catch [ValueError, TypeError] 0
       (case py_float_val mhs_str of
          Inl x \<Rightarrow> Inl x
        | Inr mhs_value \<Rightarrow> Inr (mhs_value / 1000))"

definition parse_temperature_body :: "pydict \<Rightarrow> exn + real" where
  "parse_temperature_body stats_info =
     (let mm_id0 = mm_id0_of stats_info
      in case search ''OTemp['' cls_digit mm_id0 of
           Inl x \<Rightarrow> Inl x
         | Inr otemp_match \<Rightarrow>
             (case (case otemp_match of
                      None \<Rightarrow> None
                    | Some g \<Rightarrow> if g \<noteq> ''-273'' then Some g else None) of
                Some g \<Rightarrow> py_float g
              | None \<Rightarrow>
                  (case search ''TAvg['' cls_digit mm_id0 of
                     Inl x \<Rightarrow> Inl x
                   | Inr (Some g) \<Rightarrow> py_float g
                   | Inr None \<Rightarrow> Inr 0)))"

definition parse_temperature_from_stats :: "pydict \<Rightarrow> exn + real" where
  "parse_temperature_from_stats stats_info =
     catch [ValueError, TypeError] 0 (parse_temperature_body stats_info)"

text \<open>The fallbacks of the power extractor, tried when the PS array is not used.\<close>

definition parse_power_fallback :: "pyval \<Rightarrow> exn + real" where
  "parse_power_fallback mm_id0 =
     (case search ''MPO['' cls_digit mm_id0 of
        Inl x \<Rightarrow> Inl x
      | Inr (Some g) \<Rightarrow> py_float g
      | Inr None \<Rightarrow>
          (case search ''ATA2['' cls_not_close mm_id0 of
             Inl x \<Rightarrow> Inl x
           | Inr None \<Rightarrow> Inr 0
           | Inr (Some g) \<Rightarrow>
               (let ata2_values = split_on CHR ''-'' g
                in if length ata2_values \<ge> 1
                   then (case index ata2_values 0 of
                           Inl x \<Rightarrow> Inl x
                         | Inr t \<Rightarrow> py_float t)
                   else Inr 0)))"

definition parse_power_body :: "pydict \<Rightarrow> exn + real" where
  "parse_power_body stats_info =
     (let mm_id0 = mm_id0_of stats_info
      in case search ''PS['' cls_not_close mm_id0 of
           Inl x \<Rightarrow> Inl x
         | Inr None \<Rightarrow> parse_power_fallback mm_id0
         | Inr (Some g) \<Rightarrow>
             (let ps_values = split_ws g
              in if length ps_values \<ge> 7
                 then (case index ps_values 6 of
                         Inl x \<Rightarrow> Inl x
                       | Inr t \<Rightarrow> py_float t)
                 else parse_power_fallback mm_id0))"

definition parse_power_from_stats :: "pydict \<Rightarrow> exn + real" where
  "parse_power_from_stats stats_info =
     catch [ValueError, TypeError, IndexError] 0 (parse_power_body stats_info)"

definition parse_fan_speed_from_stats :: "pydict \<Rightarrow> exn + int" where
  "parse_fan_speed_from_stats stats_info =
     catch [ValueError, TypeError] 0
       (case search ''Fan1['' cls_digit (mm_id0_of stats_info) of
          Inl x \<Rightarrow> Inl x
        | Inr (Some g) \<Rightarrow> py_int g
        | Inr None \<Rightarrow> Inr 0)"

definition parse_frequency_from_stats :: "pydict \<Rightarrow> exn + real" where
  "parse_frequency_from_stats stats_info =
     catch [ValueError, TypeError] 0
       (case search ''Freq['' cls_digit_dot (mm_id0_of stats_info) of
          Inl x \<Rightarrow> Inl x
        | Inr (Some g) \<Rightarrow> py_float g
        | Inr None \<Rightarrow> Inr 0)"

definition parse_voltage_from_stats :: "pydict \<Rightarrow> exn + real" where
  "parse_voltage_from_stats stats_info =
     catch [ValueError, TypeError, IndexError] 0
       (case search ''PVT_V0['' cls_not_close (mm_id0_of stats_info) of
          Inl x \<Rightarrow> Inl x
        | Inr None \<Rightarrow> Inr 0
        | Inr (Some g) \<Rightarrow>
            (let voltage_values = split_ws g
             in if voltage_values \<noteq> []
                then (case index voltage_values 0 of
                        Inl x \<Rightarrow> Inl x
                      | Inr t \<Rightarrow>
                          (case py_float t of
                             Inl x \<Rightarrow> Inl x
                           | Inr voltage_cv \<Rightarrow> Inr (voltage_cv / 100)))
                else Inr 0))"

definition parse_memory_usage_from_stats :: "pydict \<Rightarrow> exn + real" where
  "parse_memory_usage_from_stats stats_info =
     catch [ValueError, TypeError] 0
       (case search ''MEMFREE['' cls_digit (mm_id0_of stats_info) of
          Inl x \<Rightarrow> Inl x
        | Inr None \<Rightarrow> Inr 0
        | Inr (Some g) \<Rightarrow>
            (case py_float g of
               Inl x \<Rightarrow> Inl x
             | Inr free_kb \<Rightarrow>
                 (let estimated_total = 128 * 1024;
                      used_kb = estimated_total - free_kb
                  in Inr (max 0 ((used_kb / estimated_total) * 100)))))"

section \<open>CollectionScheduler: one device, all devices\<close>

subsection \<open>Conversions of decoded values\<close>

definition and_then :: "exn + 'a \<Rightarrow> ('a \<Rightarrow> exn + 'b) \<Rightarrow> exn + 'b" where
  "and_then r f = (case r of Inl x \<Rightarrow> Inl x | Inr v \<Rightarrow> f v)"

definition require :: "bool \<Rightarrow> exn \<Rightarrow> exn + unit" where
  "require ok x = (if ok then Inr () else Inl x)"

text \<open>\<^verbatim>\<open>v.get\<close> exists on a dict only; of a JSON object with a repeated key the last wins.\<close>

definition as_dict :: "pyval \<Rightarrow> exn + pydict" where
  "as_dict v = (case v of PDict kvs \<Rightarrow> Inr (map_of (rev kvs)) | _ \<Rightarrow> Inl AttributeError)"

text \<open>A number in arithmetic or in a comparison with a number; anything else raises.\<close>

definition num_of :: "pyval \<Rightarrow> exn + real" where
  "num_of v =
     (case v of
        PInt i \<Rightarrow> Inr (real_of_int i)
      | PFloat r \<Rightarrow> Inr r
      | PBool b \<Rightarrow> Inr (if b then 1 else 0)
      | _ \<Rightarrow> Inl TypeError)"

definition falsy :: "pyval \<Rightarrow> bool" where
  "falsy v =
     (case v of
        PNone \<Rightarrow> True
      | PBool b \<Rightarrow> \<not> b
      | PInt i \<Rightarrow> i = 0
      | PFloat r \<Rightarrow> r = 0
      | PStr s \<Rightarrow> s = []
      | PList xs \<Rightarrow> xs = []
      | PDict kvs \<Rightarrow> kvs = [])"

text \<open>\<^verbatim>\<open>int(v)\<close> on a decoded value; a float is truncated towards zero.\<close>

definition py_int_val :: "pyval \<Rightarrow> exn + int" where
  "py_int_val v =
     (case v of
        PInt i \<Rightarrow> Inr i
      | PFloat r \<Rightarrow> Inr (if r \<ge> 0 then \<lfloor>r\<rfloor> else \<lceil>r\<rceil>)
      | PBool b \<Rightarrow> Inr (if b then 1 else 0)
      | PStr s \<Rightarrow> py_int s
      | _ \<Rightarrow> Inl TypeError)"

function str_of_nat :: "nat \<Rightarrow> string" where
  "str_of_nat n =
     (if n < 10 then [char_of (48 + n)]
      else str_of_nat (n div 10) @ [char_of (48 + n mod 10)])"
  by pat_completeness auto
termination
  by (relation "measure id") auto

declare str_of_nat.simps [simp del]

definition str_of_int :: "int \<Rightarrow> string" where
  "str_of_int i = (if i < 0 then CHR ''-'' # str_of_nat (nat (- i)) else str_of_nat (nat i))"

text \<open>
  \<^verbatim>\<open>_parse_difficulty\<close> on a decoded value: \<^verbatim>\<open>if not diff_str: return 0.0\<close>, then the
  pattern on \<^verbatim>\<open>str(diff_str)\<close>. The text of True, of a list and of a dict starts with a
  letter, a bracket or a brace, where the pattern does not match.
\<close>

definition parse_difficulty_val :: "env \<Rightarrow> pyval \<Rightarrow> exn + real" where
  "parse_difficulty_val e diff_str =
     (if falsy diff_str then Inr 0
      else (case diff_str of
              PStr s \<Rightarrow> parse_difficulty s
            | PInt i \<Rightarrow> parse_difficulty (str_of_int i)
            | PFloat r \<Rightarrow> parse_difficulty (float_repr e r)
            | _ \<Rightarrow> Inr 0))"

subsection \<open>JSON/HTTP family: decoding and the rows to insert\<close>

text \<open>
  The statements of \<^verbatim>\<open>BitAxeCollector.collect_device_data\<close> between the SELECT of the
  device row and the commit, in their order. The columns \<^verbatim>\<open>device_id\<close>,
  \<^verbatim>\<open>hashrate_ghs\<close>, \<^verbatim>\<open>power_watts\<close> and \<^verbatim>\<open>temperature_c\<close> are NOT NULL (models.py).
\<close>

definition bitaxe_decode ::
  "env \<Rightarrow> string \<Rightarrow> pyval \<Rightarrow> nat option \<Rightarrow> exn + (mining_row \<times> hardware_row \<times> system_info_params)" where
  "bitaxe_decode e device_id system_info_v device_db_id =
     and_then (as_dict system_info_v) (\<lambda>system_info.
       let hashrate_v = dict_get system_info ''hashRate'' (PInt 0);
           power_v = dict_get system_info ''power'' (PInt 0);
           temp_v = dict_get system_info ''temp'' (PInt 0)
       in
     and_then (parse_difficulty_val e (dict_get system_info ''bestDiff'' (PStr ''0'')))
       (\<lambda>best_difficulty_ever.
     and_then (parse_difficulty_val e (dict_get system_info ''bestSessionDiff'' (PStr ''0'')))
       (\<lambda>best_session_difficulty.
     and_then (require (device_db_id \<noteq> None \<and> hashrate_v \<noteq> PNone) IntegrityError) (\<lambda>_.
     and_then (case insert_error e BitAxe device_id of Some x \<Rightarrow> Inl x | None \<Rightarrow> Inr ()) (\<lambda>_.
     and_then (num_of hashrate_v) (\<lambda>hashrate_ghs.
     and_then (if hashrate_ghs > 0
               then and_then (num_of power_v) (\<lambda>power. Inr (efficiency power hashrate_ghs))
               else Inr 0) (\<lambda>eff.
     and_then (num_of (dict_get system_info ''voltage'' (PInt 0))) (\<lambda>voltage_mv.
     and_then (require (power_v \<noteq> PNone \<and> temp_v \<noteq> PNone) IntegrityError) (\<lambda>_.
     and_then (insert_system_info (system_info_params_of system_info)) (\<lambda>params.
       Inr (\<lparr> mr_device = the device_db_id, mr_hashrate_ghs = hashrate_ghs,
               mr_best_difficulty = best_difficulty_ever \<rparr>,
            \<lparr> hw_device = the device_db_id, hw_power_watts = power_v,
               hw_efficiency_j_per_th = eff, hw_temperature_c = temp_v \<rparr>,
            params)))))))))))"

definition lookup_device :: "family \<Rightarrow> string \<Rightarrow> world \<Rightarrow> nat option \<times> string" where
  "lookup_device fam device_id w =
     (case devices w fam device_id of
        None \<Rightarrow> (None, device_id)
      | Some row \<Rightarrow> (Some (db_id row), device_name row))"

definition commit_rows :: "family \<Rightarrow> mining_row \<Rightarrow> hardware_row \<Rightarrow> world \<Rightarrow> world" where
  "commit_rows fam m h w =
     w\<lparr>mining_stats := (mining_stats w)(fam := m # mining_stats w fam),
       hardware_logs := (hardware_logs w)(fam := h # hardware_logs w fam)\<rparr>"

text \<open>The body of the \<^verbatim>\<open>try\<close> of \<^verbatim>\<open>BitAxeCollector.collect_device_data\<close>.\<close>

definition bitaxe_collect_body :: "env \<Rightarrow> string \<Rightarrow> string \<Rightarrow> world \<Rightarrow> exn option \<times> world" where
  "bitaxe_collect_body e device_id device_ip w =
     (case api_request e device_ip of
        Inl x \<Rightarrow> (Some x, w)
      | Inr system_info \<Rightarrow>
          (case update_device_status e BitAxe device_id device_ip True [] w of
             (Some x, w1) \<Rightarrow> (Some x, w1)
           | (None, w1) \<Rightarrow>
               (case get_db_connection e w1 of
                  (Some x, w2) \<Rightarrow> (Some x, w2)
                | (None, w2) \<Rightarrow>
                    (case lookup_device BitAxe device_id w2 of
                       (device_db_id, dname) \<Rightarrow>
                         (case bitaxe_decode e device_id system_info device_db_id of
                            Inl x \<Rightarrow> (Some x, w2)
                          | Inr (m, h, params) \<Rightarrow>
                              (let w3 = (commit_rows BitAxe m h w2)
                                          \<lparr>system_info_rows :=
                                             (mr_device m, params) # system_info_rows w2\<rparr>
                               in case check_hashrate_stagnation e BitAxe device_db_id device_id
                                         dname (mr_hashrate_ghs m) device_ip w3 of
                                    (Some x, w4) \<Rightarrow> (Some x, w4)
                                  | (None, w4) \<Rightarrow>
                                      check_best_difficulty_improvement e BitAxe device_db_id
                                        device_id dname (mr_best_difficulty m) w4))))))"

subsection \<open>Text/socket family: decoding and the rows to insert\<close>

record avalon_summary =
  as_hashrate_ghs :: real
  as_uptime_seconds :: int
  as_shares_accepted :: int
  as_shares_rejected :: int
  as_blocks_found :: int
  as_best_share :: real

text \<open>The fields read from the summary, up to the INSERT of the mining row.\<close>

definition avalon_decode_summary ::
  "env \<Rightarrow> string \<Rightarrow> pyval \<Rightarrow> pyval \<Rightarrow> nat option \<Rightarrow> exn + avalon_summary" where
  "avalon_decode_summary e device_id summary_v pools_v device_db_id =
     and_then (as_dict summary_v) (\<lambda>summary_info.
     and_then (parse_hashrate_mhs (dict_get summary_info ''MHS av'' (PStr ''0'')))
       (\<lambda>hashrate_ghs.
     and_then (py_int_val (dict_get summary_info ''Elapsed'' (PInt 0))) (\<lambda>uptime_seconds.
     and_then (py_int_val (dict_get summary_info ''Accepted'' (PInt 0))) (\<lambda>shares_accepted.
     and_then (py_int_val (dict_get summary_info ''Rejected'' (PInt 0))) (\<lambda>shares_rejected.
     and_then (py_int_val (dict_get summary_info ''Found Blocks'' (PInt 0))) (\<lambda>blocks_found.
     and_then (py_float_val (dict_get summary_info ''Best Share'' (PInt 0))) (\<lambda>best_share.
     and_then (if falsy pools_v then Inr () else and_then (as_dict pools_v) (\<lambda>_. Inr ())) (\<lambda>_.
     and_then (require (device_db_id \<noteq> None) IntegrityError) (\<lambda>_.
     and_then (case insert_error e Avalon device_id of Some x \<Rightarrow> Inl x | None \<Rightarrow> Inr ()) (\<lambda>_.
       Inr \<lparr> as_hashrate_ghs = hashrate_ghs, as_uptime_seconds = uptime_seconds,
             as_shares_accepted = shares_accepted, as_shares_rejected = shares_rejected,
             as_blocks_found = blocks_found, as_best_share = best_share \<rparr>))))))))))"

text \<open>
  The hardware fields: the extractors on the estats dict, the efficiency, and the
  reads of the version dict for the system-info row.
\<close>

definition avalon_decode_hardware ::
  "pyval \<Rightarrow> pyval \<Rightarrow> nat \<Rightarrow> real \<Rightarrow> exn + hardware_row" where
  "avalon_decode_hardware stats_v version_v dev hashrate_ghs =
     and_then (as_dict stats_v) (\<lambda>stats_info.
     and_then (parse_temperature_from_stats stats_info) (\<lambda>temperature_c.
     and_then (parse_power_from_stats stats_info) (\<lambda>power_watts.
     and_then (parse_fan_speed_from_stats stats_info) (\<lambda>fan_speed_rpm.
     and_then (parse_frequency_from_stats stats_info) (\<lambda>frequency_mhz.
     and_then (parse_voltage_from_stats stats_info) (\<lambda>voltage.
     and_then (as_dict version_v) (\<lambda>version_info.
     and_then (parse_memory_usage_from_stats stats_info) (\<lambda>memory_usage_percent.
       Inr \<lparr> hw_device = dev, hw_power_watts = PFloat power_watts,
             hw_efficiency_j_per_th = efficiency power_watts hashrate_ghs,
             hw_temperature_c = PFloat temperature_c \<rparr>))))))))"

text \<open>
  The body of the \<^verbatim>\<open>try\<close> of \<^verbatim>\<open>AvalonCollector.collect_device_data\<close>. The best
  difficulty check runs on a connection of its own before the commit, so it reads the
  committed rows: the row just inserted is not among them.
\<close>

definition avalon_collect_body :: "env \<Rightarrow> string \<Rightarrow> string \<Rightarrow> world \<Rightarrow> exn option \<times> world" where
  "avalon_collect_body e device_id device_ip w =
     (case and_then (socket_request e device_ip ''version'') (\<lambda>version_info.
           and_then (socket_request e device_ip ''summary'') (\<lambda>summary_info.
           and_then (socket_request e device_ip ''estats'') (\<lambda>stats_info.
           and_then (socket_request e device_ip ''pools'') (\<lambda>pools_info.
             Inr (version_info, summary_info, stats_info, pools_info))))) of
        Inl x \<Rightarrow> (Some x, w)
      | Inr (version_info, summary_info, stats_info, pools_info) \<Rightarrow>
          (case update_device_status e Avalon device_id device_ip True [] w of
             (Some x, w1) \<Rightarrow> (Some x, w1)
           | (None, w1) \<Rightarrow>
               (case get_db_connection e w1 of
                  (Some x, w2) \<Rightarrow> (Some x, w2)
                | (None, w2) \<Rightarrow>
                    (case lookup_device Avalon device_id w2 of
                       (device_db_id, dname) \<Rightarrow>
                         (case avalon_decode_summary e device_id summary_info pools_info
                                 device_db_id of
                            Inl x \<Rightarrow> (Some x, w2)
                          | Inr sm \<Rightarrow>
                              (case (if as_best_share sm > 0
                                     then check_best_difficulty_improvement e Avalon device_db_id
                                            device_id dname (as_best_share sm) w2
                                     else (None, w2)) of
                                 (Some x, w3) \<Rightarrow> (Some x, w3)
                               | (None, w3) \<Rightarrow>
                                   (case avalon_decode_hardware stats_info version_info
                                           (the device_db_id) (as_hashrate_ghs sm) of
                                      Inl x \<Rightarrow> (Some x, w3)
                                    | Inr h \<Rightarrow>
                                        check_hashrate_stagnation e Avalon device_db_id device_id
                                          dname (as_hashrate_ghs sm) device_ip
                                          (commit_rows Avalon
                                             \<lparr> mr_device = the device_db_id,
                                               mr_hashrate_ghs = as_hashrate_ghs sm,
                                               mr_best_difficulty = as_best_share sm \<rparr>
                                             h w3))))))))"

subsection \<open>The handler and the loop\<close>

definition collect_body :: "env \<Rightarrow> family \<Rightarrow> string \<Rightarrow> string \<Rightarrow> world \<Rightarrow> exn option \<times> world" where
  "collect_body e fam = (case fam of BitAxe \<Rightarrow> bitaxe_collect_body e | Avalon \<Rightarrow> avalon_collect_body e)"

text \<open>
  \<^verbatim>\<open>collect_device_data\<close>: the body, and \<^verbatim>\<open>except Exception as e:
  self.update_device_status(device_id, device_ip, False, str(e))\<close>. What the handler
  raises leaves the function.
\<close>

definition collect_device_data ::
  "env \<Rightarrow> family \<Rightarrow> string \<Rightarrow> string \<Rightarrow> world \<Rightarrow> exn option \<times> world" where
  "collect_device_data e fam device_id device_ip w =
     (case collect_body e fam device_id device_ip (w\<lparr>polled := polled w @ [(fam, device_id)]\<rparr>) of
        (None, w1) \<Rightarrow> (None, w1)
      | (Some x, w1) \<Rightarrow> update_device_status e fam device_id device_ip False (str_of_exn x) w1)"

text \<open>The \<^verbatim>\<open>for\<close> loop of \<^verbatim>\<open>collect_all_devices\<close> over (device_id, ip_address).\<close>

fun collect_loop :: "env \<Rightarrow> family \<Rightarrow> (string \<times> string) list \<Rightarrow> world \<Rightarrow> exn option \<times> world" where
  "collect_loop e fam [] w = (None, w)"
| "collect_loop e fam ((device_id, device_ip) # rest) w =
     (case collect_device_data e fam device_id device_ip w of
        (Some x, w1) \<Rightarrow> (Some x, w1)
      | (None, w1) \<Rightarrow> collect_loop e fam rest w1)"

definition collect_all_devices ::
  "env \<Rightarrow> family \<Rightarrow> (string \<times> string) list \<Rightarrow> world \<Rightarrow> exn option \<times> world" where
  "collect_all_devices e fam devs w = (if devs = [] then (None, w) else collect_loop e fam devs w)"

section \<open>Concrete inputs\<close>

text \<open>Surroundings in which the database is reachable and no device answers.\<close>

definition env_up :: env where
  "env_up = \<lparr> db_reachable = (\<lambda>n. True), restart_ok = (\<lambda>fam ip. True),
              api_request = (\<lambda>ip. Inl RequestException),
              socket_request = (\<lambda>ip command. Inl SocketError),
              insert_error = (\<lambda>fam device_id. None), float_repr = (\<lambda>r. []) \<rparr>"

text \<open>The same, but the first attempt to open a database connection fails.\<close>

definition env_db_glitch :: env where
  "env_db_glitch = env_up\<lparr>db_reachable := (\<lambda>n. n \<noteq> 0)\<rparr>"

definition world0 :: world where
  "world0 = \<lparr> devices = (\<lambda>fam. Map.empty), mining_stats = (\<lambda>fam. []),
              hardware_logs = (\<lambda>fam. []), system_info_rows = [], outbox = [],
              restarts = [], polled = [], db_connects = 0, now = 1000 \<rparr>"

definition miner_row :: device_row where
  "miner_row = \<lparr> db_id = 1, device_name = ''Miner'', ip_address = ''10.0.0.5'',
                 is_active = True, last_seen_at = Some 900, error_message = None \<rparr>"

text \<open>One registered, active device of the family.\<close>

definition world_registered :: "family \<Rightarrow> world" where
  "world_registered fam =
     world0\<lparr>devices := (\<lambda>f. if f = fam then [''miner-1'' \<mapsto> miner_row] else Map.empty)\<rparr>"

text \<open>One poll outcome of that device, as \<^verbatim>\<open>collect_device_data\<close> reports it.\<close>

definition poll :: "family \<Rightarrow> bool \<Rightarrow> world \<Rightarrow> world" where
  "poll fam is_online w =
     snd (update_device_status env_up fam ''miner-1'' ''10.0.0.5'' is_online
            (if is_online then [] else ''timeout'') w)"

definition sample :: "real \<Rightarrow> real \<Rightarrow> mining_row" where
  "sample hashrate best = \<lparr> mr_device = 1, mr_hashrate_ghs = hashrate, mr_best_difficulty = best \<rparr>"

text \<open>The stored samples of the device, newest first.\<close>

definition world_samples :: "family \<Rightarrow> mining_row list \<Rightarrow> world" where
  "world_samples fam rows = (world_registered fam)\<lparr>mining_stats := (\<lambda>f. if f = fam then rows else [])\<rparr>"


text \<open>
  The response of a device that leaves out \<^verbatim>\<open>overheat_mode\<close>, \<^verbatim>\<open>rotation\<close> and
  \<^verbatim>\<open>displayTimeout\<close> (tests/test_bitaxe_nerdqaxe.py), reduced to the fields modelled.
\<close>

definition nerdqaxe_response :: pyval where
  "nerdqaxe_response =
     PDict [(''hashRate'', PFloat 500), (''bestDiff'', PStr ''1.5 M''),
            (''bestSessionDiff'', PStr ''500 K''), (''power'', PFloat (31 / 2)),
            (''temp'', PInt 65), (''voltage'', PInt 1200), (''temptarget'', PInt 75),
            (''autofanspeed'', PInt 1), (''display'', PStr ''OLED''), (''invertscreen'', PInt 0)]"




definition two_devices :: "(string \<times> string) list" where
  "two_devices = [(''miner-1'', ''10.0.0.5''), (''miner-2'', ''10.0.0.6'')]"




text \<open>The first sample of a device, with a positive best difficulty, just inserted.\<close>

definition world_first_sample :: "family \<Rightarrow> world" where
  "world_first_sample fam = world_samples fam [sample 500 1500000]"

text \<open>The same response with the three optional fields present.\<close>

definition standard_response :: pyval where
  "standard_response =
     (case nerdqaxe_response of
        PDict kvs \<Rightarrow> PDict (kvs @ [(''overheat_mode'', PInt 0), (''rotation'', PInt 0),
                                   (''displayTimeout'', PInt 60)])
      | v \<Rightarrow> v)"


section \<open>Evaluation rules\<close>

lemmas float_eval = py_float_def py_int_def strip_num_def is_num_space_def is_space_def
  split_sign_def parse_exponent_def nat_of_digits_def digit_val_def scale10_def is_digit_def


lemmas world_eval = world_samples_def world_registered_def world0_def env_up_def miner_row_def
  sample_def get_db_connection_def notify_def Let_def

section \<open>Efficiency\<close>



section \<open>Device status\<close>

lemma get_db_connection_world:
  "snd (get_db_connection e w) = w\<lparr>db_connects := Suc (db_connects w)\<rparr>"
  by (simp add: get_db_connection_def Let_def)

lemma update_device_status_raises:
  "fst (update_device_status e fam device_id device_ip is_online error_msg w) =
     (if db_reachable e (db_connects w) then None else Some OperationalError)"
  by (auto simp: update_device_status_def get_db_connection_def Let_def split: option.splits)

text \<open>No poll outcome changes the stored \<^verbatim>\<open>is_active\<close> of any device.\<close>

lemma update_device_status_is_active:
  "devices (snd (update_device_status e fam device_id device_ip is_online error_msg w)) f d = Some r'
   \<Longrightarrow> \<exists>r. devices w f d = Some r \<and> is_active r' = is_active r"
  by (auto simp: update_device_status_def get_db_connection_def Let_def notify_def
           split: option.splits if_splits)

text \<open>
  Claim C10. For a device id without a row in the devices table, of either family and
  for either poll outcome, the status update writes nothing and sends nothing: the
  world is left as it was, but for the count of connections opened.
\<close>

theorem unregistered_device_status_noop:
  "devices w fam device_id = None \<Longrightarrow>
   snd (update_device_status e fam device_id device_ip is_online error_msg w) =
     w\<lparr>db_connects := Suc (db_connects w)\<rparr>"
  by (simp add: update_device_status_def get_db_connection_def Let_def)

text \<open>A failed poll of a device that is not registered.\<close>

theorem unregistered_device_status_noop_witness:
  "devices world0 Avalon ''ghost'' = None \<and>
   snd (update_device_status env_up Avalon ''ghost'' ''10.0.0.9'' False ''timeout'' world0) =
     world0\<lparr>db_connects := Suc (db_connects world0)\<rparr>"
proof -
  have h: "devices world0 Avalon ''ghost'' = None" by (simp add: world0_def)
  show ?thesis using h unregistered_device_status_noop [OF h] by simp
qed

text \<open>
  Claim C1 (the code differs). The status that the comparison reads is \<^verbatim>\<open>is_active\<close>,
  and no poll writes it. For a registered device with \<^verbatim>\<open>is_active\<close> set, of either
  family, the polls online, offline, online send the offline alert and no online alert,
  and two failed polls in a row send the offline alert twice.
\<close>

theorem status_edges_not_stored:
  "outbox (poll fam True (poll fam False (poll fam True (world_registered fam)))) =
     [DeviceOfflineAlert ''miner-1'' ''Miner'' (Some 1000) ''timeout''] \<and>
   outbox (poll fam False (poll fam False (world_registered fam))) =
     [DeviceOfflineAlert ''miner-1'' ''Miner'' (Some 900) ''timeout'',
      DeviceOfflineAlert ''miner-1'' ''Miner'' (Some 900) ''timeout'']"
  by (simp add: poll_def update_device_status_def get_db_connection_def Let_def notify_def
       world_registered_def world0_def env_up_def miner_row_def display_name_def)

section \<open>Hashrate stagnation\<close>






section \<open>Best difficulty\<close>

text \<open>
  With a positive previous and a positive current value, both families send the alert
  exactly when the relative improvement is at least 5 percent.
\<close>

lemma best_alert_threshold:
  "0 < prev \<Longrightarrow> 0 < cur \<Longrightarrow>
   best_alert fam device_id dname cur prev =
     (if (cur - prev) / prev \<ge> 5 / 100 then [BestDifficultyAlert device_id dname cur prev] else [])"
  by (cases fam)
     (auto simp: best_alert_def bitaxe_best_alert_def avalon_best_alert_def Let_def field_simps)

lemma best_alert_nonpositive: "cur \<le> 0 \<Longrightarrow> best_alert fam device_id dname cur prev = []"
  by (cases fam) (auto simp: best_alert_def bitaxe_best_alert_def avalon_best_alert_def)

lemma avalon_first_best:
  "0 < cur \<Longrightarrow>
   best_alert Avalon device_id dname cur 0 = [BestDifficultyAlert device_id dname cur 0]"
  by (simp add: best_alert_def avalon_best_alert_def)

lemma bitaxe_no_first_best: "best_alert BitAxe device_id dname cur 0 = []"
  by (simp add: best_alert_def bitaxe_best_alert_def)

text \<open>
  Claim C3 (the code differs for one family). The first sample of a device, with best
  difficulty 1500000 and no earlier record, so that the previous value is 0: the check of
  the JSON/HTTP family sends nothing, the check of the text/socket family sends the
  first-best alert.
\<close>

theorem bitaxe_first_best_not_alerted:
  "previous_best BitAxe (Some 1) (world_first_sample BitAxe) = 0 \<and>
   outbox (snd (check_best_difficulty_improvement env_up BitAxe (Some 1) ''miner-1'' ''Miner''
             1500000 (world_first_sample BitAxe))) = [] \<and>
   outbox (snd (check_best_difficulty_improvement env_up Avalon (Some 1) ''miner-1'' ''Miner''
             1500000 (world_first_sample Avalon)))
     = [BestDifficultyAlert ''miner-1'' ''Miner'' 1500000 0]"
  by (simp add: check_best_difficulty_improvement_def previous_best_def best_alert_def
        bitaxe_best_alert_def avalon_best_alert_def world_first_sample_def world_eval)

section \<open>Difficulty strings\<close>

lemma parse_difficulty_examples:
  "parse_difficulty ''22.23 M'' = Inr 22230000"
  "parse_difficulty ''500 K'' = Inr 500000"
  "parse_difficulty ''7'' = Inr 7"
  "parse_difficulty ''3G'' = Inr 3000000000"
  "parse_difficulty ''2 T'' = Inr 2000000000000"
  "parse_difficulty ''abc'' = Inr 0"
  "parse_difficulty [] = Inr 0"
  by (simp_all add: parse_difficulty_def match_difficulty_def cls_digit_dot_def float_eval
        multiplier_def)

lemma parse_difficulty_value:
  "match_difficulty s = Some (g, unit) \<Longrightarrow> py_float g = Inr v \<Longrightarrow>
   parse_difficulty s = Inr (v * multiplier unit)"
  by (auto simp: parse_difficulty_def match_difficulty_def Let_def split: if_splits)

lemma multiplier_monotone:
  "multiplier None \<le> multiplier (Some CHR ''K'')"
  "multiplier (Some CHR ''K'') \<le> multiplier (Some CHR ''M'')"
  "multiplier (Some CHR ''M'') \<le> multiplier (Some CHR ''G'')"
  "multiplier (Some CHR ''G'') \<le> multiplier (Some CHR ''T'')"
  by (simp_all add: multiplier_def)

text \<open>
  Claim C5 (the code differs). The pattern accepts any run of digits and points as the
  numeric prefix, and \<^verbatim>\<open>float\<close> is applied to it outside any \<^verbatim>\<open>try\<close>: on the string
  1.2.3 the parser raises ValueError instead of returning 0.0.
\<close>

theorem parse_difficulty_raises_on_two_points:
  "match_difficulty ''1.2.3'' = Some (''1.2.3'', None) \<and>
   parse_difficulty ''1.2.3'' = Inl ValueError"
  by (simp add: parse_difficulty_def match_difficulty_def cls_digit_dot_def float_eval)

section \<open>Optional fields\<close>

lemma absent_field_is_null:
  "system_info ''overheat_mode'' = None \<Longrightarrow> overheat_mode (system_info_params_of system_info) = PNone"
  "system_info ''rotation'' = None \<Longrightarrow> display_rotation (system_info_params_of system_info) = PNone"
  "system_info ''displayTimeout'' = None \<Longrightarrow> display_timeout (system_info_params_of system_info) = PNone"
  by (simp_all add: system_info_params_of_def dict_get_def)

lemmas decode_eval = and_then_def as_dict_def system_info_params_of_def
  dict_get_def bitaxe_decode_def parse_difficulty_val_def falsy_def parse_difficulty_def
  match_difficulty_def cls_digit_dot_def multiplier_def require_def
  num_of_def efficiency_def insert_system_info_def

text \<open>With the three fields present the same response is decoded and accepted.\<close>

lemma standard_response_accepted:
  "bitaxe_decode env_up ''test-device'' standard_response (Some 1) =
     Inr (\<lparr> mr_device = 1, mr_hashrate_ghs = 500, mr_best_difficulty = 1500000 \<rparr>,
          \<lparr> hw_device = 1, hw_power_watts = PFloat (31 / 2), hw_efficiency_j_per_th = 31,
             hw_temperature_c = PInt 65 \<rparr>,
          \<lparr> overheat_mode = PInt 0, display_rotation = PInt 0, display_timeout = PInt 60 \<rparr>)"
  by (simp add: standard_response_def nerdqaxe_response_def decode_eval float_eval env_up_def
        Let_def)

text \<open>
  Claim C2 (the code differs). For the response of tests/test_bitaxe_nerdqaxe.py, which
  has none of the three optional fields, the parameters of the INSERT are None, None,
  None where the test expects 0, 0 and -1, and the row is refused by the NOT NULL
  columns.
\<close>

theorem absent_optional_fields_sent_as_null:
  "and_then (as_dict nerdqaxe_response) (\<lambda>system_info. Inr (system_info_params_of system_info)) =
     Inr \<lparr> overheat_mode = PNone, display_rotation = PNone, display_timeout = PNone \<rparr> \<and>
   bitaxe_decode env_up ''test-device'' nerdqaxe_response (Some 1) = Inl IntegrityError"
  by (simp add: nerdqaxe_response_def decode_eval float_eval env_up_def Let_def)

section \<open>Text/socket decoder\<close>

subsection \<open>Section parsing never raises\<close>






subsection \<open>What the conversions can raise\<close>







subsection \<open>The extractors never raise\<close>









subsection \<open>Fields that cannot be recovered\<close>













subsection \<open>Power and the example payload\<close>










section \<open>The collection cycle\<close>

lemma get_db_connection_polled:
  "get_db_connection e w = (r, w1) \<Longrightarrow> polled w1 = polled w"
  by (auto simp: get_db_connection_def Let_def split: if_splits)

lemma update_device_status_polled:
  "update_device_status e fam device_id device_ip is_online error_msg w = (r, w1)
   \<Longrightarrow> polled w1 = polled w"
  by (auto simp: update_device_status_def get_db_connection_def Let_def notify_def
           split: if_splits option.splits)

lemma check_hashrate_stagnation_polled:
  "check_hashrate_stagnation e fam device_db_id device_id dname hr device_ip w = (r, w1)
   \<Longrightarrow> polled w1 = polled w"
  by (auto simp: check_hashrate_stagnation_def get_db_connection_def Let_def notify_def
        restart_device_def split: if_splits)

lemma check_best_difficulty_polled:
  "check_best_difficulty_improvement e fam device_db_id device_id dname best w = (r, w1)
   \<Longrightarrow> polled w1 = polled w"
  by (auto simp: check_best_difficulty_improvement_def get_db_connection_def Let_def
           split: if_splits)

lemma bitaxe_collect_body_polled:
  "bitaxe_collect_body e device_id device_ip w = (r, w1) \<Longrightarrow> polled w1 = polled w"
  unfolding bitaxe_collect_body_def Let_def
  by (auto simp: commit_rows_def split: sum.splits prod.splits option.splits
           dest!: get_db_connection_polled update_device_status_polled
                  check_hashrate_stagnation_polled check_best_difficulty_polled)

lemma avalon_collect_body_polled:
  "avalon_collect_body e device_id device_ip w = (r, w1) \<Longrightarrow> polled w1 = polled w"
  unfolding avalon_collect_body_def Let_def
  by (auto simp: commit_rows_def split: sum.splits prod.splits option.splits if_splits
           dest!: get_db_connection_polled update_device_status_polled
                  check_hashrate_stagnation_polled check_best_difficulty_polled)

lemma collect_body_polled:
  "collect_body e fam device_id device_ip w = (r, w1) \<Longrightarrow> polled w1 = polled w"
  by (cases fam)
     (auto simp: collect_body_def dest: bitaxe_collect_body_polled avalon_collect_body_polled)

lemma collect_device_data_polled:
  "collect_device_data e fam device_id device_ip w = (r, w1)
   \<Longrightarrow> polled w1 = polled w @ [(fam, device_id)]"
  unfolding collect_device_data_def
  by (auto split: prod.splits option.splits
           dest!: collect_body_polled update_device_status_polled)

text \<open>
  While every database connection can be opened, no exception leaves
  \<^verbatim>\<open>collect_device_data\<close>, whatever the device returns and whatever the INSERT raises.
\<close>

lemma collect_device_data_returns:
  assumes "\<forall>n. db_reachable e n"
  shows "fst (collect_device_data e fam device_id device_ip w) = None"
proof -
  obtain r w1 where b: "collect_body e fam device_id device_ip
                          (w\<lparr>polled := polled w @ [(fam, device_id)]\<rparr>) = (r, w1)"
    by (cases "collect_body e fam device_id device_ip
                 (w\<lparr>polled := polled w @ [(fam, device_id)]\<rparr>)")
  show ?thesis
  proof (cases r)
    case None
    with b show ?thesis by (simp add: collect_device_data_def)
  next
    case (Some x)
    with b assms show ?thesis
      by (simp add: collect_device_data_def update_device_status_raises)
  qed
qed

lemma collect_loop_all_polled:
  assumes "\<forall>n. db_reachable e n"
  shows "fst (collect_loop e fam devs w) = None \<and>
         polled (snd (collect_loop e fam devs w)) = polled w @ map (\<lambda>d. (fam, fst d)) devs"
proof (induction devs arbitrary: w)
  case Nil
  show ?case by simp
next
  case (Cons d devs)
  obtain device_id device_ip where d: "d = (device_id, device_ip)" by (cases d)
  obtain r w1 where c: "collect_device_data e fam device_id device_ip w = (r, w1)"
    by (cases "collect_device_data e fam device_id device_ip w")
  have r: "r = None"
    using collect_device_data_returns [OF assms, of fam device_id device_ip w] c by simp
  have p: "polled w1 = polled w @ [(fam, device_id)]"
    using collect_device_data_polled [OF c] .
  show ?case using Cons.IH [of w1] by (simp add: d c r p)
qed

text \<open>
  So with a reachable database the loop asks every device of the list, in order, and
  returns.
\<close>

lemma collect_all_devices_when_db_reachable:
  assumes "\<forall>n. db_reachable e n"
  shows "fst (collect_all_devices e fam devs w) = None \<and>
         polled (snd (collect_all_devices e fam devs w)) = polled w @ map (\<lambda>d. (fam, fst d)) devs"
  using collect_loop_all_polled [OF assms, of fam devs w]
  by (simp add: collect_all_devices_def)

text \<open>
  Claim C9 (the code differs). The handler of \<^verbatim>\<open>collect_device_data\<close> records the
  failure with \<^verbatim>\<open>update_device_status\<close>, which opens its database connection outside
  its own \<^verbatim>\<open>try\<close>. With two devices, the first not answering, and the connection for
  recording that failure refused, OperationalError leaves \<^verbatim>\<open>collect_all_devices\<close> and
  the second device is never asked, in both families.
\<close>

theorem cycle_aborted_when_handler_cannot_connect:
  "fst (collect_all_devices env_db_glitch BitAxe two_devices (world_registered BitAxe))
     = Some OperationalError \<and>
   polled (snd (collect_all_devices env_db_glitch BitAxe two_devices (world_registered BitAxe)))
     = [(BitAxe, ''miner-1'')] \<and>
   fst (collect_all_devices env_db_glitch Avalon two_devices (world_registered Avalon))
     = Some OperationalError \<and>
   polled (snd (collect_all_devices env_db_glitch Avalon two_devices (world_registered Avalon)))
     = [(Avalon, ''miner-1'')]"
  by (simp add: collect_all_devices_def two_devices_def collect_device_data_def collect_body_def
        bitaxe_collect_body_def avalon_collect_body_def env_db_glitch_def and_then_def
        update_device_status_def world_eval)

end
